theory Spec2Isabelle
  imports
    Complex_Main
    "HOL-Library.Multiset"
    "HOL-Library.Char_ord"
    "HOL-Library.List_Lexorder"
begin

section \<open>The OpenCPX Go SDK: document model\<close>

text \<open>
  The Go package \<^verbatim>\<open>cpx\<close> declares the posture document as four structs with JSON tags,
  three string-typed enumerations, a handful of builder methods with pointer receivers,
  the roll-up \<^verbatim>\<open>CalculateOverallPosture\<close>, and an HTTP handler. The embedding keeps the
  Go names. Two records may carry a field of the same name (\<^verbatim>\<open>Name\<close>, \<^verbatim>\<open>Version\<close>,
  \<^verbatim>\<open>Status\<close>, \<^verbatim>\<open>EvidenceRefs\<close>); such fields are written qualified.
\<close>

subsection \<open>Enumerations\<close>

text \<open>
  \<^verbatim>\<open>type CompliancePosture string\<close>, \<^verbatim>\<open>type FrameworkStatus string\<close> and
  \<^verbatim>\<open>type ControlStatus string\<close> are defined string types, so a variable of such a type
  can hold any string, the named constants being four (respectively three) of them.
\<close>

type_synonym CompliancePosture = string
type_synonym FrameworkStatus = string
type_synonym ControlStatus = string

definition Version_const :: string where
  "Version_const = ''v1''"

definition PostureCompliant :: CompliancePosture where
  "PostureCompliant = ''compliant''"

definition PosturePartiallyCompliant :: CompliancePosture where
  "PosturePartiallyCompliant = ''partially_compliant''"

definition PostureNonCompliant :: CompliancePosture where
  "PostureNonCompliant = ''non_compliant''"

definition PostureUnknown :: CompliancePosture where
  "PostureUnknown = ''unknown''"

definition StatusCompliant :: FrameworkStatus where
  "StatusCompliant = ''compliant''"

definition StatusPartial :: FrameworkStatus where
  "StatusPartial = ''partial''"

definition StatusNonCompliant :: FrameworkStatus where
  "StatusNonCompliant = ''non_compliant''"

definition ControlCompliant :: ControlStatus where
  "ControlCompliant = ''compliant''"

definition ControlPartial :: ControlStatus where
  "ControlPartial = ''partial''"

definition ControlNonCompliant :: ControlStatus where
  "ControlNonCompliant = ''non_compliant''"

subsection \<open>Go values: slices, floats, times, dynamically typed values\<close>

text \<open>
  A Go slice is either \<^verbatim>\<open>nil\<close> or a sequence of elements, and the two are told apart by
  \<^verbatim>\<open>encoding/json\<close> (a nil slice is written \<^verbatim>\<open>null\<close>, an empty one \<^verbatim>\<open>[]\<close>). A slice is
  therefore an optional list, \<open>None\<close> being \<^verbatim>\<open>nil\<close>. \<open>len\<close> is Go's \<^verbatim>\<open>len\<close>, \<open>elems\<close> the
  sequence a \<^verbatim>\<open>range\<close> loop visits, \<open>append_slice\<close> Go's \<^verbatim>\<open>append(s, x)\<close>, whose result
  is never nil. A slice is modelled by its elements: two copies of a struct value that
  share a backing array, and an append through one of them that the other could see, are
  not modelled.
\<close>

type_synonym 'a slice = "'a list option"

definition elems :: "'a slice \<Rightarrow> 'a list" where
  "elems s = (case s of None \<Rightarrow> [] | Some xs \<Rightarrow> xs)"

definition len :: "'a slice \<Rightarrow> nat" where
  "len s = length (elems s)"

definition append_slice :: "'a slice \<Rightarrow> 'a \<Rightarrow> 'a slice" where
  "append_slice s x = Some (elems s @ [x])"

text \<open>
  A \<^verbatim>\<open>float64\<close> is a finite number, given by the rational it denotes, or one of the three
  values without a JSON rendering. The encoder prints a finite float as the shortest
  decimal that reads back to the same float; a \<open>JNumber\<close> written from a float carries the
  float that the printed decimal denotes, not the digits.
\<close>

datatype float64 = Finite rat | PosInf | NegInf | NaN

text \<open>
  A \<^verbatim>\<open>time.Time\<close> is an instant (nanoseconds since the Unix epoch) shown in a location.
  \<^verbatim>\<open>t.UTC()\<close> keeps the instant and sets the location to UTC.
\<close>

datatype Location = LocUTC | LocLocal | LocFixed string int

record Time =
  unixNano :: int
  location :: Location

definition UTC :: "Time \<Rightarrow> Time" where
  "UTC t = t\<lparr>location := LocUTC\<rparr>"

text \<open>The tree of a JSON text, object members in the order they are written.\<close>

datatype json =
    JNull
  | JBool bool
  | JNumber rat
  | JString string
  | JArray "json list"
  | JObject "(string \<times> json) list"

subsection \<open>The structs\<close>

record EvidenceRef =
  Type :: string
  Description :: string
  URL :: string
  Expires :: string
  Hash :: string
  SizeBytes :: int

text \<open>
  An \<^verbatim>\<open>interface{}\<close> element of \<^verbatim>\<open>Posture.EvidenceRefs\<close> or \<^verbatim>\<open>Posture.Extensions\<close> is an
  \<^verbatim>\<open>EvidenceRef\<close> struct, a value of a type that \<^verbatim>\<open>encoding/json\<close> rejects (a channel, a
  function), a float that is not finite, which it rejects as a value, or any other value,
  which is represented by the JSON tree that \<^verbatim>\<open>encoding/json\<close> writes for it.
\<close>

datatype iface = IValue json | IEvidenceRef EvidenceRef | IUnsupported | INonFinite

record Organization =
  Name :: string
  Domain :: string
  Contact :: string

record Control =
  ID :: string
  Title :: string
  Status :: ControlStatus
  Reason :: string
  RemediationDate :: string
  EvidenceRefs :: "string slice"

record Framework =
  Name :: string
  Version :: string
  Status :: FrameworkStatus
  Score :: float64
  LastAudit :: string
  Auditor :: string
  ReportRef :: string
  CertificateRef :: string
  Controls :: "Control slice"

text \<open>
  \<^verbatim>\<open>Organization *Organization\<close> is a pointer that may be nil: an option.
  \<^verbatim>\<open>Extensions map[string]interface{}\<close> is a map that may be nil; a non-nil map is given by
  an association list with one entry per key. The order of that list has no meaning in Go
  (iteration order is random) and no operation below depends on it: \<open>map_set\<close> overwrites
  in place, and serialization sorts by key.
\<close>

record Posture =
  Version :: string
  Timestamp :: Time
  CompliancePosture :: CompliancePosture
  Organization :: "Organization option"
  Frameworks :: "Framework slice"
  EvidenceRefs :: "iface slice"
  Extensions :: "(string \<times> iface) list option"

subsection \<open>Constructors and builder methods\<close>

text \<open>
  \<^verbatim>\<open>NewPosture\<close> reads the clock; the value \<^verbatim>\<open>time.Now()\<close> returns is the parameter \<open>now\<close>.
  The struct literal names three fields, every other field has the zero value of its type:
  the empty string, a nil pointer, a nil slice, a nil map.
\<close>

definition NewPosture :: "Time \<Rightarrow> Posture" where
  "NewPosture now =
     \<lparr> Version = Version_const,
       Timestamp = UTC now,
       CompliancePosture = '''',
       Organization = None,
       Frameworks = Some [],
       Posture.EvidenceRefs = None,
       Extensions = None \<rparr>"

text \<open>
  The builder methods have a pointer receiver, update one field in place and return the
  receiver: the model returns the updated posture. None of them has an error result.
\<close>

definition AddFramework :: "Posture \<Rightarrow> Framework \<Rightarrow> Posture" where
  "AddFramework p f = p\<lparr>Frameworks := append_slice (Frameworks p) f\<rparr>"

definition SetOrganization :: "Posture \<Rightarrow> Organization \<Rightarrow> Posture" where
  "SetOrganization p org = p\<lparr>Organization := Some org\<rparr>"

definition SetPosture :: "Posture \<Rightarrow> CompliancePosture \<Rightarrow> Posture" where
  "SetPosture p posture = p\<lparr>CompliancePosture := posture\<rparr>"

fun map_set :: "(string \<times> 'v) list \<Rightarrow> string \<Rightarrow> 'v \<Rightarrow> (string \<times> 'v) list" where
  "map_set [] k v = [(k, v)]"
| "map_set ((k', v') # m) k v = (if k' = k then (k, v) # m else (k', v') # map_set m k v)"

definition AddExtension :: "Posture \<Rightarrow> string \<Rightarrow> iface \<Rightarrow> Posture" where
  "AddExtension p key val =
     (let m = (case Extensions p of None \<Rightarrow> [] | Some m \<Rightarrow> m)
      in p\<lparr>Extensions := Some (map_set m key val)\<rparr>)"

definition NewFramework :: "string \<Rightarrow> FrameworkStatus \<Rightarrow> float64 \<Rightarrow> Framework" where
  "NewFramework name status score =
     \<lparr> Framework.Name = name,
       Framework.Version = '''',
       Framework.Status = status,
       Score = score,
       LastAudit = '''',
       Auditor = '''',
       ReportRef = '''',
       CertificateRef = '''',
       Controls = Some [] \<rparr>"

definition AddControl :: "Framework \<Rightarrow> Control \<Rightarrow> Framework" where
  "AddControl f c = f\<lparr>Controls := append_slice (Controls f) c\<rparr>"

definition NewControl :: "string \<Rightarrow> ControlStatus \<Rightarrow> Control" where
  "NewControl ident status =
     \<lparr> ID = ident,
       Title = '''',
       Control.Status = status,
       Reason = '''',
       RemediationDate = '''',
       Control.EvidenceRefs = None \<rparr>"

subsection \<open>The roll-up\<close>

text \<open>
  \<^verbatim>\<open>CalculateOverallPosture\<close> has a pointer receiver, so it could write to the posture.
  The model returns the result together with the posture as the method leaves it. The
  \<^verbatim>\<open>range\<close> loop over \<^verbatim>\<open>p.Frameworks\<close> is a left fold of its body over the two locals
  \<^verbatim>\<open>allCompliant\<close> and \<^verbatim>\<open>anyCompliant\<close>.
\<close>

definition loop_body :: "bool \<times> bool \<Rightarrow> Framework \<Rightarrow> bool \<times> bool" where
  "loop_body vars f =
     (case vars of (allCompliant, anyCompliant) \<Rightarrow>
        if Framework.Status f = StatusCompliant
        then (allCompliant, True)
        else (False, anyCompliant))"

definition CalculateOverallPosture :: "Posture \<Rightarrow> CompliancePosture \<times> Posture" where
  "CalculateOverallPosture p =
     (if len (Frameworks p) = 0 then (PostureUnknown, p)
      else
        (case foldl loop_body (True, False) (elems (Frameworks p)) of
           (allCompliant, anyCompliant) \<Rightarrow>
             if allCompliant then (PostureCompliant, p)
             else if anyCompliant then (PosturePartiallyCompliant, p)
             else (PostureNonCompliant, p)))"

text \<open>
  The aggregation algorithm as the specification words it, on the list of frameworks:
  empty gives unknown; else all compliant gives compliant; else some compliant gives
  partially compliant; else non-compliant.
\<close>

definition aggregation_spec :: "Framework list \<Rightarrow> CompliancePosture" where
  "aggregation_spec fs =
     (if fs = [] then PostureUnknown
      else if list_all (\<lambda>f. Framework.Status f = StatusCompliant) fs then PostureCompliant
      else if list_ex (\<lambda>f. Framework.Status f = StatusCompliant) fs then PosturePartiallyCompliant
      else PostureNonCompliant)"

section \<open>Serialization\<close>

text \<open>
  \<^verbatim>\<open>ToJSON\<close> is \<^verbatim>\<open>json.Marshal(p)\<close> and the handler calls \<^verbatim>\<open>json.MarshalIndent\<close>: the standard
  encoder, driven by the struct tags above. The model gives the tree of the text it writes
  (the bytes are a function of that tree; indentation changes the bytes, not the tree). A
  struct is written as an object, its fields in declaration order under their tag names; a
  field tagged \<^verbatim>\<open>omitempty\<close> is left out when it is the empty string, a nil pointer, a slice
  or map of length 0, or the number 0; a nil slice that is written is \<^verbatim>\<open>null\<close>; a map is
  written with its keys sorted. The encoder fails on a non-finite float, on a value of an
  unsupported type, and when a \<^verbatim>\<open>MarshalJSON\<close> method fails. A string is written as
  it is when it is valid UTF-8, which is what the model writes; the encoder replaces every
  byte that is not part of a valid UTF-8 sequence by U+FFFD, so for other strings the
  model gives the key and the emptiness of the value, not its bytes.
\<close>

datatype marshal_error = UnsupportedTypeError | UnsupportedValueError | MarshalerError

text \<open>
  \<^verbatim>\<open>time.Time\<close> brings its own \<^verbatim>\<open>MarshalJSON\<close> (an RFC 3339 string, or an error for a year
  outside 0..9999). It belongs to the standard library and is a parameter of the model.
\<close>

type_synonym time_marshaler = "Time \<Rightarrow> marshal_error + string"

definition field :: "string \<Rightarrow> json \<Rightarrow> (string \<times> json) list" where
  "field k v = [(k, v)]"

definition omitempty_string :: "string \<Rightarrow> string \<Rightarrow> (string \<times> json) list" where
  "omitempty_string k v = (if v = '''' then [] else [(k, JString v)])"

definition omitempty_int :: "string \<Rightarrow> int \<Rightarrow> (string \<times> json) list" where
  "omitempty_int k v = (if v = 0 then [] else [(k, JNumber (of_int v))])"

definition omitempty_slice :: "string \<Rightarrow> 'a slice \<Rightarrow> json \<Rightarrow> (string \<times> json) list" where
  "omitempty_slice k s v = (if len s = 0 then [] else [(k, v)])"

fun traverse :: "('a \<Rightarrow> 'e + 'b) \<Rightarrow> 'a list \<Rightarrow> 'e + 'b list" where
  "traverse g [] = Inr []"
| "traverse g (x # xs) =
     (case g x of
        Inl e \<Rightarrow> Inl e
      | Inr y \<Rightarrow> (case traverse g xs of Inl e \<Rightarrow> Inl e | Inr ys \<Rightarrow> Inr (y # ys)))"

definition marshal_slice :: "('a \<Rightarrow> marshal_error + json) \<Rightarrow> 'a slice \<Rightarrow> marshal_error + json" where
  "marshal_slice g s =
     (case s of
        None \<Rightarrow> Inr JNull
      | Some xs \<Rightarrow> (case traverse g xs of Inl e \<Rightarrow> Inl e | Inr js \<Rightarrow> Inr (JArray js)))"

definition marshal_string_slice :: "string slice \<Rightarrow> json" where
  "marshal_string_slice s = (case s of None \<Rightarrow> JNull | Some xs \<Rightarrow> JArray (map JString xs))"

definition marshal_float64 :: "float64 \<Rightarrow> marshal_error + json" where
  "marshal_float64 x = (case x of Finite r \<Rightarrow> Inr (JNumber r) | _ \<Rightarrow> Inl UnsupportedValueError)"

definition marshal_EvidenceRef :: "EvidenceRef \<Rightarrow> json" where
  "marshal_EvidenceRef e =
     JObject
       (omitempty_string ''type'' (Type e)
        @ omitempty_string ''description'' (Description e)
        @ field ''url'' (JString (URL e))
        @ omitempty_string ''expires'' (Expires e)
        @ omitempty_string ''hash'' (Hash e)
        @ omitempty_int ''size_bytes'' (SizeBytes e))"

definition marshal_iface :: "iface \<Rightarrow> marshal_error + json" where
  "marshal_iface v =
     (case v of
        IValue j \<Rightarrow> Inr j
      | IEvidenceRef e \<Rightarrow> Inr (marshal_EvidenceRef e)
      | IUnsupported \<Rightarrow> Inl UnsupportedTypeError
      | INonFinite \<Rightarrow> Inl UnsupportedValueError)"

definition marshal_Organization :: "Organization \<Rightarrow> json" where
  "marshal_Organization org =
     JObject
       (field ''name'' (JString (Organization.Name org))
        @ omitempty_string ''domain'' (Domain org)
        @ omitempty_string ''contact'' (Contact org))"

definition marshal_Control :: "Control \<Rightarrow> json" where
  "marshal_Control c =
     JObject
       (field ''id'' (JString (ID c))
        @ omitempty_string ''title'' (Title c)
        @ field ''status'' (JString (Control.Status c))
        @ omitempty_string ''reason'' (Reason c)
        @ omitempty_string ''remediation_date'' (RemediationDate c)
        @ omitempty_slice ''evidence_refs'' (Control.EvidenceRefs c)
            (marshal_string_slice (Control.EvidenceRefs c)))"

definition marshal_Control_slice :: "Control slice \<Rightarrow> json" where
  "marshal_Control_slice s = (case s of None \<Rightarrow> JNull | Some cs \<Rightarrow> JArray (map marshal_Control cs))"

definition marshal_Framework :: "Framework \<Rightarrow> marshal_error + json" where
  "marshal_Framework f =
     (case marshal_float64 (Score f) of
        Inl e \<Rightarrow> Inl e
      | Inr score \<Rightarrow>
          Inr (JObject
            (field ''name'' (JString (Framework.Name f))
             @ omitempty_string ''version'' (Framework.Version f)
             @ field ''status'' (JString (Framework.Status f))
             @ field ''score'' score
             @ omitempty_string ''last_audit'' (LastAudit f)
             @ omitempty_string ''auditor'' (Auditor f)
             @ omitempty_string ''report_ref'' (ReportRef f)
             @ omitempty_string ''certificate_ref'' (CertificateRef f)
             @ omitempty_slice ''controls'' (Controls f) (marshal_Control_slice (Controls f)))))"

text \<open>
  A map is written as an object whose members are the entries sorted by key (bytewise,
  which is the lexicographic order on strings); a nil map that is written is \<^verbatim>\<open>null\<close>.
\<close>

fun marshal_entry :: "string \<times> iface \<Rightarrow> marshal_error + (string \<times> json)" where
  "marshal_entry (k, v) = (case marshal_iface v of Inl e \<Rightarrow> Inl e | Inr j \<Rightarrow> Inr (k, j))"

definition marshal_map :: "(string \<times> iface) list option \<Rightarrow> marshal_error + json" where
  "marshal_map m =
     (case m of
        None \<Rightarrow> Inr JNull
      | Some kvs \<Rightarrow>
          (case traverse marshal_entry (sort_key fst kvs) of
             Inl e \<Rightarrow> Inl e
           | Inr members \<Rightarrow> Inr (JObject members)))"

definition omitempty_pointer :: "string \<Rightarrow> 'a option \<Rightarrow> ('a \<Rightarrow> json) \<Rightarrow> (string \<times> json) list" where
  "omitempty_pointer k ptr g = (case ptr of None \<Rightarrow> [] | Some x \<Rightarrow> [(k, g x)])"

definition omitempty_map :: "string \<Rightarrow> (string \<times> 'v) list option \<Rightarrow> json \<Rightarrow> (string \<times> json) list" where
  "omitempty_map k m v = (if len m = 0 then [] else [(k, v)])"

definition marshal_Posture :: "time_marshaler \<Rightarrow> Posture \<Rightarrow> marshal_error + json" where
  "marshal_Posture tm p =
     (case tm (Timestamp p) of
        Inl e \<Rightarrow> Inl e
      | Inr ts \<Rightarrow>
     (case marshal_slice marshal_Framework (Frameworks p) of
        Inl e \<Rightarrow> Inl e
      | Inr frameworks \<Rightarrow>
     (case (if len (Posture.EvidenceRefs p) = 0 then Inr JNull
            else marshal_slice marshal_iface (Posture.EvidenceRefs p)) of
        Inl e \<Rightarrow> Inl e
      | Inr evidence_refs \<Rightarrow>
     (case (if len (Extensions p) = 0 then Inr JNull else marshal_map (Extensions p)) of
        Inl e \<Rightarrow> Inl e
      | Inr extensions \<Rightarrow>
          Inr (JObject
            (field ''version'' (JString (Version p))
             @ field ''timestamp'' (JString ts)
             @ field ''compliance_posture'' (JString (CompliancePosture p))
             @ omitempty_pointer ''organization'' (Organization p) marshal_Organization
             @ field ''frameworks'' frameworks
             @ omitempty_slice ''evidence_refs'' (Posture.EvidenceRefs p) evidence_refs
             @ omitempty_map ''extensions'' (Extensions p) extensions))))))"

text \<open>
  \<^verbatim>\<open>ToJSON\<close> and \<^verbatim>\<open>ToJSONIndent\<close> have a pointer receiver: the model returns the result
  together with the posture as the method leaves it. Neither reads the clock.
\<close>

definition ToJSON :: "time_marshaler \<Rightarrow> Posture \<Rightarrow> (marshal_error + json) \<times> Posture" where
  "ToJSON tm p = (marshal_Posture tm p, p)"

definition ToJSONIndent :: "time_marshaler \<Rightarrow> Posture \<Rightarrow> (marshal_error + json) \<times> Posture" where
  "ToJSONIndent tm p = (marshal_Posture tm p, p)"

text \<open>Reading a member of an object: the value under a key, if the key is present.\<close>

definition member :: "json \<Rightarrow> string \<Rightarrow> json option" where
  "member j k = (case j of JObject kvs \<Rightarrow> map_of kvs k | _ \<Rightarrow> None)"

definition keys :: "json \<Rightarrow> string list" where
  "keys j = (case j of JObject kvs \<Rightarrow> map fst kvs | _ \<Rightarrow> [])"

text \<open>
  A value is blank when it is \<^verbatim>\<open>null\<close>, the empty string, the empty array or the empty
  object. \<open>present_iff j k filled\<close> says that the object \<open>j\<close> has the key \<open>k\<close> exactly
  when \<open>filled\<close> holds, and then with a value that is not blank.
\<close>

definition is_blank :: "json \<Rightarrow> bool" where
  "is_blank j = (j = JNull \<or> j = JString '''' \<or> j = JArray [] \<or> j = JObject [])"

definition present_iff :: "json \<Rightarrow> string \<Rightarrow> bool \<Rightarrow> bool" where
  "present_iff j k filled =
     (case member j k of None \<Rightarrow> \<not> filled | Some v \<Rightarrow> filled \<and> \<not> is_blank v)"

text \<open>
  The field-presence rules, as checks of a serialized object against the value it was
  written from. Required fields are present; every optional field is present exactly when
  it is set, and then not blank; nested objects obey the rules of their own struct.
\<close>

definition Control_presence :: "Control \<Rightarrow> json \<Rightarrow> bool" where
  "Control_presence c j =
     (member j ''id'' = Some (JString (ID c))
      \<and> member j ''status'' = Some (JString (Control.Status c))
      \<and> present_iff j ''title'' (Title c \<noteq> '''')
      \<and> present_iff j ''reason'' (Reason c \<noteq> '''')
      \<and> present_iff j ''remediation_date'' (RemediationDate c \<noteq> '''')
      \<and> present_iff j ''evidence_refs'' (len (Control.EvidenceRefs c) \<noteq> 0))"

definition Framework_presence :: "Framework \<Rightarrow> json \<Rightarrow> bool" where
  "Framework_presence f j =
     (member j ''name'' = Some (JString (Framework.Name f))
      \<and> member j ''status'' = Some (JString (Framework.Status f))
      \<and> member j ''score'' \<noteq> None
      \<and> present_iff j ''version'' (Framework.Version f \<noteq> '''')
      \<and> present_iff j ''last_audit'' (LastAudit f \<noteq> '''')
      \<and> present_iff j ''auditor'' (Auditor f \<noteq> '''')
      \<and> present_iff j ''report_ref'' (ReportRef f \<noteq> '''')
      \<and> present_iff j ''certificate_ref'' (CertificateRef f \<noteq> '''')
      \<and> present_iff j ''controls'' (len (Controls f) \<noteq> 0)
      \<and> (case member j ''controls'' of
            None \<Rightarrow> True
          | Some (JArray cs) \<Rightarrow> list_all2 Control_presence (elems (Controls f)) cs
          | Some _ \<Rightarrow> False))"

definition Organization_presence :: "Organization \<Rightarrow> json \<Rightarrow> bool" where
  "Organization_presence org j =
     (member j ''name'' = Some (JString (Organization.Name org))
      \<and> present_iff j ''domain'' (Domain org \<noteq> '''')
      \<and> present_iff j ''contact'' (Contact org \<noteq> ''''))"

definition optional_presence :: "Posture \<Rightarrow> json \<Rightarrow> bool" where
  "optional_presence p j =
     (member j ''version'' = Some (JString (Version p))
      \<and> member j ''timestamp'' \<noteq> None
      \<and> member j ''compliance_posture'' = Some (JString (CompliancePosture p))
      \<and> present_iff j ''organization'' (Organization p \<noteq> None)
      \<and> present_iff j ''evidence_refs'' (len (Posture.EvidenceRefs p) \<noteq> 0)
      \<and> present_iff j ''extensions'' (len (Extensions p) \<noteq> 0)
      \<and> (case (member j ''organization'', Organization p) of
            (None, _) \<Rightarrow> True
          | (Some oj, Some org) \<Rightarrow> Organization_presence org oj
          | (Some oj, None) \<Rightarrow> False))"

text \<open>
  The rule for \<^verbatim>\<open>frameworks\<close> as the specification words it: always emitted, as an array
  with one element per framework, so as \<^verbatim>\<open>[]\<close> when there is none.
\<close>

definition frameworks_always_array :: "Posture \<Rightarrow> json \<Rightarrow> bool" where
  "frameworks_always_array p j =
     (case member j ''frameworks'' of
        Some (JArray js) \<Rightarrow> list_all2 Framework_presence (elems (Frameworks p)) js
      | _ \<Rightarrow> False)"

text \<open>
  The rule for \<^verbatim>\<open>frameworks\<close> as the encoder applies it: always emitted, as \<^verbatim>\<open>null\<close> for a
  nil slice and as an array with one element per framework for any other.
\<close>

definition frameworks_null_or_array :: "Posture \<Rightarrow> json \<Rightarrow> bool" where
  "frameworks_null_or_array p j =
     (case member j ''frameworks'' of
        Some JNull \<Rightarrow> Frameworks p = None
      | Some (JArray js) \<Rightarrow>
          Frameworks p \<noteq> None \<and> list_all2 Framework_presence (elems (Frameworks p)) js
      | _ \<Rightarrow> False)"

section \<open>The HTTP handler\<close>

text \<open>
  Of the request the handler reads the method and the \<^verbatim>\<open>format\<close> query parameter;
  \<^verbatim>\<open>r.URL.Query()\<close> is a map from a key to the list of its values and \<^verbatim>\<open>Get\<close> returns the
  first value of a key, or the empty string. The \<^verbatim>\<open>ResponseWriter\<close> is a state: the header
  map, the status code once written, and the chunks written to the body. A chunk is a text,
  or the indented rendering of a JSON tree. Header names are case-insensitive; the header
  map of \<^verbatim>\<open>net/http\<close> stores a name in its canonical letter case, the model under the
  spelling the source passes.
\<close>

record Request =
  Method :: string
  Query :: "string \<rightharpoonup> string list"

datatype chunk = Text string | Indented json

record ResponseWriter =
  Header :: "string \<rightharpoonup> string"
  StatusCode :: "nat option"
  Body :: "chunk list"

definition Values_Get :: "(string \<rightharpoonup> string list) \<Rightarrow> string \<Rightarrow> string" where
  "Values_Get vs key = (case vs key of None \<Rightarrow> '''' | Some [] \<Rightarrow> '''' | Some (v # _) \<Rightarrow> v)"

definition Header_Set :: "ResponseWriter \<Rightarrow> string \<Rightarrow> string \<Rightarrow> ResponseWriter" where
  "Header_Set w k v = w\<lparr>Header := (Header w)(k \<mapsto> v)\<rparr>"

definition WriteHeader :: "ResponseWriter \<Rightarrow> nat \<Rightarrow> ResponseWriter" where
  "WriteHeader w code = (if StatusCode w = None then w\<lparr>StatusCode := Some code\<rparr> else w)"

definition Write :: "ResponseWriter \<Rightarrow> chunk \<Rightarrow> ResponseWriter" where
  "Write w c = (WriteHeader w 200)\<lparr>Body := Body w @ [c]\<rparr>"

text \<open>
  \<^verbatim>\<open>http.Error(w, msg, code)\<close> of the standard library: it sets the content type to plain
  text, writes the status code, and prints the message followed by a newline.
\<close>

definition http_Error :: "ResponseWriter \<Rightarrow> string \<Rightarrow> nat \<Rightarrow> ResponseWriter" where
  "http_Error w msg code =
     Write
       (WriteHeader
          (Header_Set
             (Header_Set w ''Content-Type'' ''text/plain; charset=utf-8'')
             ''X-Content-Type-Options'' ''nosniff'')
          code)
       (Text (msg @ [CHR 0x0A]))"

definition StatusOK :: nat where "StatusOK = 200"
definition StatusMethodNotAllowed :: nat where "StatusMethodNotAllowed = 405"
definition StatusInternalServerError :: nat where "StatusInternalServerError = 500"
definition StatusNotImplemented :: nat where "StatusNotImplemented = 501"
definition MethodGet :: string where "MethodGet = ''GET''"

text \<open>
  A \<^verbatim>\<open>Provider\<close> returns a pointer to a posture and an error, either of which may be nil;
  the model takes the pair it returns (the error by its message).
  \<^verbatim>\<open>json.MarshalIndent\<close> of a nil pointer writes \<^verbatim>\<open>null\<close>.
\<close>

type_synonym Provider = "Posture option \<times> string option"

definition MarshalIndent :: "time_marshaler \<Rightarrow> Posture option \<Rightarrow> marshal_error + json" where
  "MarshalIndent tm posture = (case posture of None \<Rightarrow> Inr JNull | Some p \<Rightarrow> marshal_Posture tm p)"

definition yaml_message :: string where
  "yaml_message =
     ''{'' @ [CHR 0x22] @ ''error'' @ [CHR 0x22] @ '': '' @ [CHR 0x22]
     @ ''YAML format requires gopkg.in/yaml.v3'' @ [CHR 0x22] @ ''}''"

definition Handler :: "time_marshaler \<Rightarrow> Provider \<Rightarrow> ResponseWriter \<Rightarrow> Request \<Rightarrow> ResponseWriter" where
  "Handler tm provider w r =
     (if Method r \<noteq> MethodGet
      then http_Error w ''Method not allowed'' StatusMethodNotAllowed
      else
        (case provider of (posture, err) \<Rightarrow>
           if err \<noteq> None
           then http_Error w ''Internal server error'' StatusInternalServerError
           else
             (let format = Values_Get (Query r) ''format'' in
              if format = ''yaml''
              then http_Error (Header_Set w ''Content-Type'' ''application/json'')
                     yaml_message StatusNotImplemented
              else
                (case MarshalIndent tm posture of
                   Inl e \<Rightarrow> http_Error w ''Failed to serialize posture'' StatusInternalServerError
                 | Inr data \<Rightarrow>
                     Write
                       (WriteHeader
                          (Header_Set
                             (Header_Set w ''Content-Type'' ''application/json'')
                             ''X-CPX-Version'' Version_const)
                          StatusOK)
                       (Indented data)))))"

text \<open>
  The error envelope of the specification, \<^verbatim>\<open>{"error": "Internal server error"}\<close>, as a
  JSON tree and as the text of that tree.
\<close>

definition error_envelope :: json where
  "error_envelope = JObject [(''error'', JString ''Internal server error'')]"

definition error_envelope_text :: string where
  "error_envelope_text =
     ''{'' @ [CHR 0x22] @ ''error'' @ [CHR 0x22] @ '': '' @ [CHR 0x22]
     @ ''Internal server error'' @ [CHR 0x22] @ ''}''"

text \<open>
  The validation the specification asks of \<^verbatim>\<open>addFramework\<close>, in its words: the score lies
  in the closed range from 0 to 1 and the name is not empty. No function of the SDK
  computes it.
\<close>

definition score_in_unit_range :: "float64 \<Rightarrow> bool" where
  "score_in_unit_range x = (case x of Finite r \<Rightarrow> 0 \<le> r \<and> r \<le> 1 | _ \<Rightarrow> False)"

definition spec_valid_framework :: "Framework \<Rightarrow> bool" where
  "spec_valid_framework f = (score_in_unit_range (Score f) \<and> Framework.Name f \<noteq> '''')"

section \<open>Parsing\<close>
























text \<open>Sample data used to run the definitions.\<close>

definition sample_time :: Time where
  "sample_time = \<lparr> unixNano = 1760616000000000000, location = LocLocal \<rparr>"

definition soc2 :: Framework where
  "soc2 = NewFramework ''SOC2'' StatusCompliant (Finite 1)"

definition iso27001 :: Framework where
  "iso27001 = NewFramework ''ISO27001'' StatusPartial (Finite (85 / 100))"

definition hipaa :: Framework where
  "hipaa = NewFramework ''HIPAA'' StatusNonCompliant (Finite 0)"

definition sample_time_marshaler :: time_marshaler where
  "sample_time_marshaler t =
     (if t = UTC sample_time then Inr ''2025-10-16T12:00:00Z'' else Inl MarshalerError)"


definition acme :: Organization where
  "acme = \<lparr> Organization.Name = ''Acme Corp'', Domain = ''acme.com'', Contact = '''' \<rparr>"

definition sample_posture :: Posture where
  "sample_posture =
     SetPosture
       (SetOrganization
          (AddFramework
             (AddFramework (NewPosture sample_time)
                (AddControl soc2 (NewControl ''CC1.1'' ControlCompliant)))
             iso27001)
          acme)
       PosturePartiallyCompliant"

definition sample_json :: json where
  "sample_json =
     JObject
       [(''version'', JString ''v1''),
        (''timestamp'', JString ''2025-10-16T12:00:00Z''),
        (''compliance_posture'', JString ''partially_compliant''),
        (''organization'',
           JObject [(''name'', JString ''Acme Corp''), (''domain'', JString ''acme.com'')]),
        (''frameworks'',
           JArray
             [JObject
                [(''name'', JString ''SOC2''),
                 (''status'', JString ''compliant''),
                 (''score'', JNumber 1),
                 (''controls'',
                    JArray
                      [JObject [(''id'', JString ''CC1.1''), (''status'', JString ''compliant'')]])],
              JObject
                [(''name'', JString ''ISO27001''),
                 (''status'', JString ''partial''),
                 (''score'', JNumber (85 / 100))]])]"

definition empty_writer :: ResponseWriter where
  "empty_writer = \<lparr> Header = Map.empty, StatusCode = None, Body = [] \<rparr>"

definition get_request :: Request where
  "get_request = \<lparr> Method = ''GET'', Query = Map.empty \<rparr>"

definition post_request :: Request where
  "post_request = \<lparr> Method = ''POST'', Query = Map.empty \<rparr>"

section \<open>Properties of the roll-up\<close>

lemma loop_fold:
  "foldl loop_body (a, b) fs =
     (a \<and> list_all (\<lambda>f. Framework.Status f = StatusCompliant) fs,
      b \<or> list_ex (\<lambda>f. Framework.Status f = StatusCompliant) fs)"
  by (induction fs arbitrary: a b) (auto simp: loop_body_def)

lemma len_zero_iff: "len s = 0 \<longleftrightarrow> elems s = []"
  by (simp add: len_def)

lemma rollup_value:
  "fst (CalculateOverallPosture p) = aggregation_spec (elems (Frameworks p))"
  by (simp add: CalculateOverallPosture_def aggregation_spec_def loop_fold len_zero_iff)

lemma rollup_frame: "snd (CalculateOverallPosture p) = p"
  by (simp add: CalculateOverallPosture_def loop_fold)

lemma aggregation_spec_statuses:
  assumes "mset (map Framework.Status fs') = mset (map Framework.Status fs)"
  shows "aggregation_spec fs' = aggregation_spec fs"
proof -
  have s: "Framework.Status ` set fs' = Framework.Status ` set fs"
    using assms by (metis set_map set_mset_mset)
  have e: "fs' = [] \<longleftrightarrow> fs = []"
    using assms by (metis map_is_Nil_conv mset_zero_iff)
  have "(\<forall>f\<in>set fs'. Framework.Status f = StatusCompliant)
        \<longleftrightarrow> (\<forall>s\<in>Framework.Status ` set fs'. s = StatusCompliant)"
    by blast
  also have "\<dots> \<longleftrightarrow> (\<forall>f\<in>set fs. Framework.Status f = StatusCompliant)"
    unfolding s by blast
  finally have a: "list_all (\<lambda>f. Framework.Status f = StatusCompliant) fs'
        \<longleftrightarrow> list_all (\<lambda>f. Framework.Status f = StatusCompliant) fs"
    by (simp add: list_all_iff)
  have "(\<exists>f\<in>set fs'. Framework.Status f = StatusCompliant)
        \<longleftrightarrow> (\<exists>s\<in>Framework.Status ` set fs'. s = StatusCompliant)"
    by blast
  also have "\<dots> \<longleftrightarrow> (\<exists>f\<in>set fs. Framework.Status f = StatusCompliant)"
    unfolding s by blast
  finally have x: "list_ex (\<lambda>f. Framework.Status f = StatusCompliant) fs'
        \<longleftrightarrow> list_ex (\<lambda>f. Framework.Status f = StatusCompliant) fs"
    by (simp add: list_ex_iff)
  show ?thesis
    by (simp add: aggregation_spec_def a x e)
qed

text \<open>
  Claim C1. For every posture, the value \<^verbatim>\<open>CalculateOverallPosture\<close> returns is the one the
  specification's aggregation algorithm gives on the posture's frameworks: unknown for no
  framework; otherwise compliant when every status is compliant; otherwise partially
  compliant when some status is compliant; otherwise non-compliant.
\<close>

theorem CalculateOverallPosture_refines_spec:
  "fst (CalculateOverallPosture p) =
     (if elems (Frameworks p) = [] then PostureUnknown
      else if list_all (\<lambda>f. Framework.Status f = StatusCompliant) (elems (Frameworks p))
        then PostureCompliant
      else if list_ex (\<lambda>f. Framework.Status f = StatusCompliant) (elems (Frameworks p))
        then PosturePartiallyCompliant
      else PostureNonCompliant)
   \<and> fst (CalculateOverallPosture p) = aggregation_spec (elems (Frameworks p))"
  by (simp add: rollup_value) (simp add: aggregation_spec_def)

theorem CalculateOverallPosture_refines_spec_witness:
  "fst (CalculateOverallPosture
         (AddFramework (AddFramework (NewPosture sample_time) soc2) iso27001))
     = PosturePartiallyCompliant
   \<and> aggregation_spec [soc2, iso27001] = PosturePartiallyCompliant"
  using CalculateOverallPosture_refines_spec
    [of "AddFramework (AddFramework (NewPosture sample_time) soc2) iso27001"]
  by (simp add: AddFramework_def NewPosture_def append_slice_def elems_def soc2_def
      iso27001_def NewFramework_def StatusCompliant_def StatusPartial_def
      aggregation_spec_def)

text \<open>
  Claim C2. For every posture with at least one framework and no framework of status
  compliant, whatever the other statuses are (partial, non-compliant), the roll-up is
  non-compliant, not partially compliant.
\<close>

theorem no_compliant_rolls_up_non_compliant:
  assumes "elems (Frameworks p) \<noteq> []"
    and "\<forall>f \<in> set (elems (Frameworks p)). Framework.Status f \<noteq> StatusCompliant"
  shows "fst (CalculateOverallPosture p) = PostureNonCompliant
       \<and> fst (CalculateOverallPosture p) \<noteq> PosturePartiallyCompliant"
proof -
  have n: "\<not> list_ex (\<lambda>f. Framework.Status f = StatusCompliant) (elems (Frameworks p))"
    using assms(2) by (simp add: list_ex_iff)
  have a: "\<not> list_all (\<lambda>f. Framework.Status f = StatusCompliant) (elems (Frameworks p))"
    using assms by (cases "elems (Frameworks p)") (auto simp: list_all_iff)
  have "fst (CalculateOverallPosture p) = PostureNonCompliant"
    using assms(1) n a by (simp add: rollup_value aggregation_spec_def)
  then show ?thesis
    by (simp add: PostureNonCompliant_def PosturePartiallyCompliant_def)
qed

theorem no_compliant_rolls_up_non_compliant_witness:
  "fst (CalculateOverallPosture (AddFramework (NewPosture sample_time) iso27001))
     = PostureNonCompliant
   \<and> fst (CalculateOverallPosture
           (AddFramework (AddFramework (NewPosture sample_time) iso27001) hipaa))
     = PostureNonCompliant"
proof -
  have e1: "elems (Frameworks (AddFramework (NewPosture sample_time) iso27001)) = [iso27001]"
    by (simp add: AddFramework_def NewPosture_def append_slice_def elems_def)
  have e2: "elems (Frameworks
              (AddFramework (AddFramework (NewPosture sample_time) iso27001) hipaa))
            = [iso27001, hipaa]"
    by (simp add: AddFramework_def NewPosture_def append_slice_def elems_def)
  have s: "Framework.Status iso27001 \<noteq> StatusCompliant"
      "Framework.Status hipaa \<noteq> StatusCompliant"
    by (simp_all add: iso27001_def hipaa_def NewFramework_def StatusCompliant_def
        StatusPartial_def StatusNonCompliant_def)
  show ?thesis
    using no_compliant_rolls_up_non_compliant
        [of "AddFramework (NewPosture sample_time) iso27001"]
      no_compliant_rolls_up_non_compliant
        [of "AddFramework (AddFramework (NewPosture sample_time) iso27001) hipaa"]
    by (simp add: e1 e2 s)
qed

text \<open>
  Claim C9. \<^verbatim>\<open>CalculateOverallPosture\<close> is a pure read: the posture it leaves behind is
  the posture it was called on, field by field, and in particular the
  \<^verbatim>\<open>compliance_posture\<close> field still holds its old value, not the result.
\<close>

theorem CalculateOverallPosture_pure_read:
  "snd (CalculateOverallPosture p) = p
   \<and> Version (snd (CalculateOverallPosture p)) = Version p
   \<and> Timestamp (snd (CalculateOverallPosture p)) = Timestamp p
   \<and> CompliancePosture (snd (CalculateOverallPosture p)) = CompliancePosture p
   \<and> Organization (snd (CalculateOverallPosture p)) = Organization p
   \<and> Frameworks (snd (CalculateOverallPosture p)) = Frameworks p
   \<and> Posture.EvidenceRefs (snd (CalculateOverallPosture p)) = Posture.EvidenceRefs p
   \<and> Extensions (snd (CalculateOverallPosture p)) = Extensions p"
  by (simp add: rollup_frame)

theorem CalculateOverallPosture_pure_read_witness:
  "fst (CalculateOverallPosture (AddFramework (NewPosture sample_time) soc2)) = PostureCompliant
   \<and> CompliancePosture (snd (CalculateOverallPosture (AddFramework (NewPosture sample_time) soc2)))
       = ''''"
  using CalculateOverallPosture_pure_read [of "AddFramework (NewPosture sample_time) soc2"]
  by (simp add: rollup_value aggregation_spec_def AddFramework_def NewPosture_def
      append_slice_def elems_def soc2_def NewFramework_def)

text \<open>
  Claim C10. The roll-up does not depend on the order of the frameworks: a posture whose
  frameworks are a permutation of another's rolls up to the same value, and more generally
  the value is determined by the multiset of framework statuses.
\<close>

theorem CalculateOverallPosture_order_independent:
  "(mset fs' = mset fs \<longrightarrow>
      fst (CalculateOverallPosture (p\<lparr>Frameworks := Some fs'\<rparr>))
      = fst (CalculateOverallPosture (p\<lparr>Frameworks := Some fs\<rparr>)))
   \<and> (mset (map Framework.Status (elems (Frameworks q)))
        = mset (map Framework.Status (elems (Frameworks p))) \<longrightarrow>
      fst (CalculateOverallPosture q) = fst (CalculateOverallPosture p))"
proof (intro conjI impI)
  assume "mset fs' = mset fs"
  then have "mset (map Framework.Status fs') = mset (map Framework.Status fs)"
    by simp
  then have "aggregation_spec fs' = aggregation_spec fs"
    by (rule aggregation_spec_statuses)
  then show "fst (CalculateOverallPosture (p\<lparr>Frameworks := Some fs'\<rparr>))
      = fst (CalculateOverallPosture (p\<lparr>Frameworks := Some fs\<rparr>))"
    by (simp add: rollup_value elems_def)
next
  assume "mset (map Framework.Status (elems (Frameworks q)))
        = mset (map Framework.Status (elems (Frameworks p)))"
  then have "aggregation_spec (elems (Frameworks q)) = aggregation_spec (elems (Frameworks p))"
    by (rule aggregation_spec_statuses)
  then show "fst (CalculateOverallPosture q) = fst (CalculateOverallPosture p)"
    by (simp add: rollup_value)
qed

theorem CalculateOverallPosture_order_independent_witness:
  "mset [iso27001, soc2, hipaa] = mset [soc2, hipaa, iso27001]
   \<and> fst (CalculateOverallPosture
           (NewPosture sample_time\<lparr>Frameworks := Some [iso27001, soc2, hipaa]\<rparr>))
     = fst (CalculateOverallPosture
           (NewPosture sample_time\<lparr>Frameworks := Some [soc2, hipaa, iso27001]\<rparr>))
   \<and> fst (CalculateOverallPosture
           (NewPosture sample_time\<lparr>Frameworks := Some [soc2, hipaa, iso27001]\<rparr>))
     = PosturePartiallyCompliant"
proof -
  have m: "mset [iso27001, soc2, hipaa] = mset [soc2, hipaa, iso27001]"
    by (simp add: add.commute)
  have v: "fst (CalculateOverallPosture
           (NewPosture sample_time\<lparr>Frameworks := Some [soc2, hipaa, iso27001]\<rparr>))
     = PosturePartiallyCompliant"
    by (simp add: rollup_value aggregation_spec_def elems_def soc2_def hipaa_def
        iso27001_def NewFramework_def StatusCompliant_def StatusPartial_def
        StatusNonCompliant_def)
  show ?thesis
    using CalculateOverallPosture_order_independent
      [of "[iso27001, soc2, hipaa]" "[soc2, hipaa, iso27001]" "NewPosture sample_time"] m v
    by simp
qed

section \<open>Construction and mutation\<close>

text \<open>
  Claim C4. \<^verbatim>\<open>NewPosture\<close> returns a posture whose version is \<^verbatim>\<open>v1\<close>, whose timestamp is the
  clock reading moved to UTC, and whose frameworks are an empty, non-nil slice. The
  compliance posture is not among the fields the struct literal sets: it is the empty
  string, which is none of the four posture constants.
\<close>

theorem NewPosture_fields:
  "Version (NewPosture now) = ''v1''
   \<and> Timestamp (NewPosture now) = UTC now
   \<and> unixNano (Timestamp (NewPosture now)) = unixNano now
   \<and> location (Timestamp (NewPosture now)) = LocUTC
   \<and> Frameworks (NewPosture now) = Some []
   \<and> CompliancePosture (NewPosture now) = ''''
   \<and> CompliancePosture (NewPosture now) \<noteq> PostureUnknown
   \<and> CompliancePosture (NewPosture now) \<notin>
       {PostureCompliant, PosturePartiallyCompliant, PostureNonCompliant, PostureUnknown}"
  by (simp add: NewPosture_def Version_const_def UTC_def PostureUnknown_def
      PostureCompliant_def PosturePartiallyCompliant_def PostureNonCompliant_def)

text \<open>
  Claim C3, as stated, fails: \<^verbatim>\<open>AddFramework\<close> appends a framework whose score is 2, one
  whose score is negative and one whose name is empty, so the frameworks list changes where
  the claim wants a \<^verbatim>\<open>ValidationError\<close> and an unchanged list.
\<close>

theorem AddFramework_validation_counterexample:
  "\<not> spec_valid_framework (NewFramework ''SOC2'' StatusCompliant (Finite 2))
   \<and> Frameworks (AddFramework (NewPosture sample_time)
                   (NewFramework ''SOC2'' StatusCompliant (Finite 2)))
       \<noteq> Frameworks (NewPosture sample_time)
   \<and> \<not> spec_valid_framework (NewFramework ''SOC2'' StatusCompliant (Finite (- 1 / 2)))
   \<and> Frameworks (AddFramework (NewPosture sample_time)
                   (NewFramework ''SOC2'' StatusCompliant (Finite (- 1 / 2))))
       \<noteq> Frameworks (NewPosture sample_time)
   \<and> \<not> spec_valid_framework (NewFramework '''' StatusCompliant (Finite 1))
   \<and> Frameworks (AddFramework (NewPosture sample_time)
                   (NewFramework '''' StatusCompliant (Finite 1)))
       \<noteq> Frameworks (NewPosture sample_time)"
  by (simp add: spec_valid_framework_def score_in_unit_range_def NewFramework_def
      AddFramework_def NewPosture_def append_slice_def elems_def)

text \<open>
  Claim C3, amended. \<^verbatim>\<open>AddFramework\<close> does not validate and cannot fail: for every posture
  and every framework, whatever its score and its name, the framework is appended at the
  end of the frameworks list, the list is not nil afterwards, and no other field changes.
  In particular every framework with a non-empty name and a score in the closed range
  from 0 to 1 is appended.
\<close>

theorem AddFramework_appends:
  "Frameworks (AddFramework p f) = Some (elems (Frameworks p) @ [f])
   \<and> elems (Frameworks (AddFramework p f)) = elems (Frameworks p) @ [f]
   \<and> len (Frameworks (AddFramework p f)) = len (Frameworks p) + 1
   \<and> Version (AddFramework p f) = Version p
   \<and> Timestamp (AddFramework p f) = Timestamp p
   \<and> CompliancePosture (AddFramework p f) = CompliancePosture p
   \<and> Organization (AddFramework p f) = Organization p
   \<and> Posture.EvidenceRefs (AddFramework p f) = Posture.EvidenceRefs p
   \<and> Extensions (AddFramework p f) = Extensions p"
  by (simp add: AddFramework_def append_slice_def elems_def len_def)

theorem AddFramework_appends_witness:
  "spec_valid_framework soc2 \<and> spec_valid_framework hipaa
   \<and> Score soc2 = Finite 1 \<and> Score hipaa = Finite 0
   \<and> Frameworks (AddFramework (AddFramework (NewPosture sample_time) soc2) hipaa)
       = Some [soc2, hipaa]"
proof -
  have v: "spec_valid_framework soc2 \<and> spec_valid_framework hipaa
      \<and> Score soc2 = Finite 1 \<and> Score hipaa = Finite 0"
    by (simp add: spec_valid_framework_def score_in_unit_range_def soc2_def hipaa_def
        NewFramework_def)
  have n: "Frameworks (NewPosture sample_time) = Some []"
    by (simp add: NewPosture_def)
  show ?thesis
    using AddFramework_appends [of "AddFramework (NewPosture sample_time) soc2" hipaa]
      AddFramework_appends [of "NewPosture sample_time" soc2] v n
    by (simp add: elems_def)
qed

section \<open>The handler's responses\<close>

lemma Handler_method_not_allowed:
  assumes "Method r \<noteq> MethodGet"
  shows "Handler tm provider w r = http_Error w ''Method not allowed'' StatusMethodNotAllowed"
  using assms by (simp add: Handler_def)

lemma http_Error_fresh:
  assumes "StatusCode w = None"
  shows "StatusCode (http_Error w msg code) = Some code"
    and "Body (http_Error w msg code) = Body w @ [Text (msg @ [CHR 0x0A])]"
    and "Header (http_Error w msg code) ''Content-Type'' = Some ''text/plain; charset=utf-8''"
  using assms by (simp_all add: http_Error_def Write_def WriteHeader_def Header_Set_def)

lemma Handler_ok:
  assumes "Method r = MethodGet"
    and "Values_Get (Query r) ''format'' \<noteq> ''yaml''"
    and "MarshalIndent tm posture = Inr data"
    and "StatusCode w = None"
  shows "StatusCode (Handler tm (posture, None) w r) = Some 200"
    and "Body (Handler tm (posture, None) w r) = Body w @ [Indented data]"
    and "Header (Handler tm (posture, None) w r) ''X-CPX-Version'' = Some ''v1''"
    and "Header (Handler tm (posture, None) w r) ''Content-Type'' = Some ''application/json''"
  using assms
  by (simp_all add: Handler_def Write_def WriteHeader_def Header_Set_def StatusOK_def
      Version_const_def)

text \<open>
  Claim C8. The method check (status 405) and the success path (status 200, the
  serialized posture, \<^verbatim>\<open>X-CPX-Version: v1\<close>) are as claimed, by the lemmas above. The
  claim fails where the provider returns an error: the handler answers through \<^verbatim>\<open>http.Error\<close>, so the
  status is 500 but the body is the plain text \<^verbatim>\<open>Internal server error\<close> and a newline,
  with content type \<^verbatim>\<open>text/plain\<close>, not the JSON envelope.
\<close>

theorem Handler_provider_error_is_plain_text:
  "StatusCode (Handler tm (posture, Some msg) empty_writer get_request) = Some 500
   \<and> Body (Handler tm (posture, Some msg) empty_writer get_request)
       = [Text (''Internal server error'' @ [CHR 0x0A])]
   \<and> Header (Handler tm (posture, Some msg) empty_writer get_request) ''Content-Type''
       = Some ''text/plain; charset=utf-8''
   \<and> Body (Handler tm (posture, Some msg) empty_writer get_request)
       \<noteq> [Text error_envelope_text]
   \<and> Body (Handler tm (posture, Some msg) empty_writer get_request)
       \<noteq> [Indented error_envelope]"
  by (simp add: Handler_def get_request_def MethodGet_def empty_writer_def http_Error_def
      Write_def WriteHeader_def Header_Set_def StatusInternalServerError_def
      error_envelope_text_def)

section \<open>Field presence in the serialized document\<close>

lemma traverse_length: "traverse g xs = Inr ys \<Longrightarrow> length ys = length xs"
  by (induction xs arbitrary: ys) (auto split: sum.splits)

lemma traverse_all2: "traverse g xs = Inr ys \<Longrightarrow> list_all2 (\<lambda>x y. g x = Inr y) xs ys"
  by (induction xs arbitrary: ys) (auto split: sum.splits)

lemma map_of_append_case:
  "map_of (xs @ ys) k = (case map_of xs k of None \<Rightarrow> map_of ys k | Some v \<Rightarrow> Some v)"
  by (simp add: map_add_def)

lemma map_of_field: "map_of (field k' v) k = (if k = k' then Some v else None)"
  by (simp add: field_def)

lemma map_of_omitempty_string:
  "map_of (omitempty_string k' s) k = (if k = k' \<and> s \<noteq> '''' then Some (JString s) else None)"
  by (simp add: omitempty_string_def)

lemma map_of_omitempty_slice:
  "map_of (omitempty_slice k' s v) k = (if k = k' \<and> len s \<noteq> 0 then Some v else None)"
  by (simp add: omitempty_slice_def)

lemma map_of_omitempty_map:
  "map_of (omitempty_map k' m v) k = (if k = k' \<and> len m \<noteq> 0 then Some v else None)"
  by (simp add: omitempty_map_def)

lemma map_of_omitempty_pointer:
  "map_of (omitempty_pointer k' ptr g) k =
     (case ptr of None \<Rightarrow> None | Some x \<Rightarrow> if k = k' then Some (g x) else None)"
  by (simp add: omitempty_pointer_def split: option.splits)

lemmas member_simps =
  map_of_append_case map_of_field map_of_omitempty_string map_of_omitempty_slice
  map_of_omitempty_map map_of_omitempty_pointer

lemma member_Control:
  "member (marshal_Control c) ''id'' = Some (JString (ID c))"
  "member (marshal_Control c) ''status'' = Some (JString (Control.Status c))"
  "member (marshal_Control c) ''title'' = (if Title c = '''' then None else Some (JString (Title c)))"
  "member (marshal_Control c) ''reason'' = (if Reason c = '''' then None else Some (JString (Reason c)))"
  "member (marshal_Control c) ''remediation_date''
     = (if RemediationDate c = '''' then None else Some (JString (RemediationDate c)))"
  "member (marshal_Control c) ''evidence_refs''
     = (if len (Control.EvidenceRefs c) = 0 then None
        else Some (JArray (map JString (elems (Control.EvidenceRefs c)))))"
  by (simp_all add: member_def marshal_Control_def member_simps marshal_string_slice_def
      elems_def len_def del: map_of_append split: option.splits)


lemma member_Organization:
  "member (marshal_Organization org) ''name'' = Some (JString (Organization.Name org))"
  "member (marshal_Organization org) ''domain''
     = (if Domain org = '''' then None else Some (JString (Domain org)))"
  "member (marshal_Organization org) ''contact''
     = (if Contact org = '''' then None else Some (JString (Contact org)))"
  by (simp_all add: member_def marshal_Organization_def member_simps del: map_of_append)

lemma member_Framework:
  assumes "marshal_Framework f = Inr j"
  shows "member j ''name'' = Some (JString (Framework.Name f))"
    and "member j ''status'' = Some (JString (Framework.Status f))"
    and "marshal_float64 (Score f) = Inr s \<Longrightarrow> member j ''score'' = Some s"
    and "member j ''version''
      = (if Framework.Version f = '''' then None else Some (JString (Framework.Version f)))"
    and "member j ''last_audit''
      = (if LastAudit f = '''' then None else Some (JString (LastAudit f)))"
    and "member j ''auditor'' = (if Auditor f = '''' then None else Some (JString (Auditor f)))"
    and "member j ''report_ref''
      = (if ReportRef f = '''' then None else Some (JString (ReportRef f)))"
    and "member j ''certificate_ref''
      = (if CertificateRef f = '''' then None else Some (JString (CertificateRef f)))"
    and "member j ''controls''
      = (if len (Controls f) = 0 then None
         else Some (JArray (map marshal_Control (elems (Controls f)))))"
proof -
  obtain sc where sc: "marshal_float64 (Score f) = Inr sc"
    using assms by (auto simp: marshal_Framework_def split: sum.splits)
  have j: "j = JObject
            (field ''name'' (JString (Framework.Name f))
             @ omitempty_string ''version'' (Framework.Version f)
             @ field ''status'' (JString (Framework.Status f))
             @ field ''score'' sc
             @ omitempty_string ''last_audit'' (LastAudit f)
             @ omitempty_string ''auditor'' (Auditor f)
             @ omitempty_string ''report_ref'' (ReportRef f)
             @ omitempty_string ''certificate_ref'' (CertificateRef f)
             @ omitempty_slice ''controls'' (Controls f) (marshal_Control_slice (Controls f)))"
    using assms sc by (simp add: marshal_Framework_def)
  show "member j ''name'' = Some (JString (Framework.Name f))"
    unfolding j by (simp add: member_def member_simps del: map_of_append)
  show "member j ''status'' = Some (JString (Framework.Status f))"
    unfolding j by (simp add: member_def member_simps del: map_of_append)
  show "marshal_float64 (Score f) = Inr s \<Longrightarrow> member j ''score'' = Some s"
    unfolding j using sc by (simp add: member_def member_simps del: map_of_append)
  show "member j ''version''
      = (if Framework.Version f = '''' then None else Some (JString (Framework.Version f)))"
    unfolding j by (simp add: member_def member_simps del: map_of_append)
  show "member j ''last_audit''
      = (if LastAudit f = '''' then None else Some (JString (LastAudit f)))"
    unfolding j by (simp add: member_def member_simps del: map_of_append)
  show "member j ''auditor'' = (if Auditor f = '''' then None else Some (JString (Auditor f)))"
    unfolding j by (simp add: member_def member_simps del: map_of_append)
  show "member j ''report_ref''
      = (if ReportRef f = '''' then None else Some (JString (ReportRef f)))"
    unfolding j by (simp add: member_def member_simps del: map_of_append)
  show "member j ''certificate_ref''
      = (if CertificateRef f = '''' then None else Some (JString (CertificateRef f)))"
    unfolding j by (simp add: member_def member_simps del: map_of_append)
  show "member j ''controls''
      = (if len (Controls f) = 0 then None
         else Some (JArray (map marshal_Control (elems (Controls f)))))"
    unfolding j
    by (simp add: member_def member_simps marshal_Control_slice_def elems_def len_def
        del: map_of_append split: option.splits)
qed

lemma marshal_slice_shape:
  assumes "marshal_slice g s = Inr j"
  shows "case s of None \<Rightarrow> j = JNull
         | Some xs \<Rightarrow> (\<exists>js. j = JArray js \<and> list_all2 (\<lambda>x y. g x = Inr y) xs js)"
  using assms
  by (auto simp: marshal_slice_def split: option.splits sum.splits dest: traverse_all2)

lemma marshal_map_shape:
  assumes "marshal_map m = Inr j" and "len m \<noteq> 0"
  shows "\<exists>members. j = JObject members \<and> members \<noteq> []"
proof -
  obtain kvs where m: "m = Some kvs" and ne: "kvs \<noteq> []"
    using assms(2) by (cases m) (auto simp: len_def elems_def)
  obtain members where t: "traverse marshal_entry (sort_key fst kvs) = Inr members"
    and j: "j = JObject members"
    using assms(1) m by (auto simp: marshal_map_def split: sum.splits)
  have "length members = length kvs"
    using traverse_length [OF t] by simp
  then show ?thesis using j ne by auto
qed

lemma member_Posture:
  assumes "marshal_Posture tm p = Inr j"
  shows "member j ''version'' = Some (JString (Version p))"
    and "\<exists>ts. tm (Timestamp p) = Inr ts \<and> member j ''timestamp'' = Some (JString ts)"
    and "member j ''compliance_posture'' = Some (JString (CompliancePosture p))"
    and "member j ''organization'' = map_option marshal_Organization (Organization p)"
    and "\<exists>fj. marshal_slice marshal_Framework (Frameworks p) = Inr fj
           \<and> member j ''frameworks'' = Some fj"
    and "if len (Posture.EvidenceRefs p) = 0 then member j ''evidence_refs'' = None
         else (\<exists>ej. marshal_slice marshal_iface (Posture.EvidenceRefs p) = Inr ej
                \<and> member j ''evidence_refs'' = Some ej)"
    and "if len (Extensions p) = 0 then member j ''extensions'' = None
         else (\<exists>xj. marshal_map (Extensions p) = Inr xj \<and> member j ''extensions'' = Some xj)"
proof -
  obtain ts fj ej xj where ts: "tm (Timestamp p) = Inr ts"
    and fj: "marshal_slice marshal_Framework (Frameworks p) = Inr fj"
    and ej: "(if len (Posture.EvidenceRefs p) = 0 then Inr JNull
              else marshal_slice marshal_iface (Posture.EvidenceRefs p)) = Inr ej"
    and xj: "(if len (Extensions p) = 0 then Inr JNull else marshal_map (Extensions p)) = Inr xj"
    and j: "j = JObject
            (field ''version'' (JString (Version p))
             @ field ''timestamp'' (JString ts)
             @ field ''compliance_posture'' (JString (CompliancePosture p))
             @ omitempty_pointer ''organization'' (Organization p) marshal_Organization
             @ field ''frameworks'' fj
             @ omitempty_slice ''evidence_refs'' (Posture.EvidenceRefs p) ej
             @ omitempty_map ''extensions'' (Extensions p) xj)"
    using assms unfolding marshal_Posture_def by (auto split: sum.splits)
  show "member j ''version'' = Some (JString (Version p))"
    unfolding j by (simp add: member_def member_simps del: map_of_append split: option.splits)
  show "\<exists>ts. tm (Timestamp p) = Inr ts \<and> member j ''timestamp'' = Some (JString ts)"
    unfolding j using ts
    by (simp add: member_def member_simps del: map_of_append split: option.splits)
  show "member j ''compliance_posture'' = Some (JString (CompliancePosture p))"
    unfolding j by (simp add: member_def member_simps del: map_of_append split: option.splits)
  show "member j ''organization'' = map_option marshal_Organization (Organization p)"
    unfolding j by (simp add: member_def member_simps del: map_of_append split: option.splits)
  show "\<exists>fj. marshal_slice marshal_Framework (Frameworks p) = Inr fj
           \<and> member j ''frameworks'' = Some fj"
    unfolding j using fj
    by (simp add: member_def member_simps del: map_of_append split: option.splits)
  show "if len (Posture.EvidenceRefs p) = 0 then member j ''evidence_refs'' = None
         else (\<exists>ej. marshal_slice marshal_iface (Posture.EvidenceRefs p) = Inr ej
                \<and> member j ''evidence_refs'' = Some ej)"
    unfolding j using ej
    by (auto simp add: member_def member_simps simp del: map_of_append
        split: option.splits if_splits)
  show "if len (Extensions p) = 0 then member j ''extensions'' = None
         else (\<exists>xj. marshal_map (Extensions p) = Inr xj \<and> member j ''extensions'' = Some xj)"
    unfolding j using xj
    by (auto simp add: member_def member_simps simp del: map_of_append
        split: option.splits if_splits)
qed

lemma present_iff_Control:
  "present_iff (marshal_Control c) ''title'' (Title c \<noteq> '''')"
  "present_iff (marshal_Control c) ''reason'' (Reason c \<noteq> '''')"
  "present_iff (marshal_Control c) ''remediation_date'' (RemediationDate c \<noteq> '''')"
  "present_iff (marshal_Control c) ''evidence_refs'' (len (Control.EvidenceRefs c) \<noteq> 0)"
  by (simp_all add: present_iff_def member_Control is_blank_def len_def)

lemma present_iff_Organization:
  "present_iff (marshal_Organization org) ''domain'' (Domain org \<noteq> '''')"
  "present_iff (marshal_Organization org) ''contact'' (Contact org \<noteq> '''')"
  by (simp_all add: present_iff_def member_Organization is_blank_def)

lemma present_iff_Framework:
  assumes "marshal_Framework f = Inr j"
  shows "present_iff j ''version'' (Framework.Version f \<noteq> '''')"
    and "present_iff j ''last_audit'' (LastAudit f \<noteq> '''')"
    and "present_iff j ''auditor'' (Auditor f \<noteq> '''')"
    and "present_iff j ''report_ref'' (ReportRef f \<noteq> '''')"
    and "present_iff j ''certificate_ref'' (CertificateRef f \<noteq> '''')"
    and "present_iff j ''controls'' (len (Controls f) \<noteq> 0)"
  by (simp_all add: present_iff_def member_Framework [OF assms] is_blank_def len_def)

lemma marshal_Organization_not_blank: "\<not> is_blank (marshal_Organization org)"
  by (simp add: is_blank_def marshal_Organization_def field_def)

lemma present_iff_Posture:
  assumes "marshal_Posture tm p = Inr j"
  shows "present_iff j ''organization'' (Organization p \<noteq> None)"
    and "present_iff j ''evidence_refs'' (len (Posture.EvidenceRefs p) \<noteq> 0)"
    and "present_iff j ''extensions'' (len (Extensions p) \<noteq> 0)"
proof -
  show "present_iff j ''organization'' (Organization p \<noteq> None)"
    by (cases "Organization p")
      (simp_all add: present_iff_def member_Posture(4) [OF assms]
        marshal_Organization_not_blank)
  show "present_iff j ''evidence_refs'' (len (Posture.EvidenceRefs p) \<noteq> 0)"
  proof (cases "len (Posture.EvidenceRefs p) = 0")
    case True
    then show ?thesis
      using member_Posture(6) [OF assms] by (simp add: present_iff_def)
  next
    case False
    then obtain ej where ej: "marshal_slice marshal_iface (Posture.EvidenceRefs p) = Inr ej"
      and m: "member j ''evidence_refs'' = Some ej"
      using member_Posture(6) [OF assms] by auto
    obtain xs where xs: "Posture.EvidenceRefs p = Some xs" and ne: "xs \<noteq> []"
      using False by (cases "Posture.EvidenceRefs p") (auto simp: len_def elems_def)
    obtain js where js: "ej = JArray js" and l: "list_all2 (\<lambda>x y. marshal_iface x = Inr y) xs js"
      using marshal_slice_shape [OF ej] xs by auto
    have "js \<noteq> []"
      using l ne by (auto dest: list_all2_lengthD)
    then show ?thesis
      using False m js by (simp add: present_iff_def is_blank_def)
  qed
  show "present_iff j ''extensions'' (len (Extensions p) \<noteq> 0)"
  proof (cases "len (Extensions p) = 0")
    case True
    then show ?thesis
      using member_Posture(7) [OF assms] by (simp add: present_iff_def)
  next
    case False
    then obtain xj where xj: "marshal_map (Extensions p) = Inr xj"
      and m: "member j ''extensions'' = Some xj"
      using member_Posture(7) [OF assms] by auto
    obtain members where "xj = JObject members" "members \<noteq> []"
      using marshal_map_shape [OF xj False] by auto
    then show ?thesis
      using False m by (simp add: present_iff_def is_blank_def)
  qed
qed

lemma frameworks_member:
  assumes "marshal_Posture tm p = Inr j"
  shows "case Frameworks p of
           None \<Rightarrow> member j ''frameworks'' = Some JNull
         | Some fs \<Rightarrow>
             (\<exists>js. member j ''frameworks'' = Some (JArray js)
                \<and> list_all2 (\<lambda>f fj. marshal_Framework f = Inr fj) fs js)"
proof -
  obtain fj where fj: "marshal_slice marshal_Framework (Frameworks p) = Inr fj"
    and m: "member j ''frameworks'' = Some fj"
    using member_Posture(5) [OF assms] by auto
  show ?thesis
    using marshal_slice_shape [OF fj] m by (auto split: option.splits)
qed

text \<open>
  Claim C5, as stated, fails for a posture whose \<^verbatim>\<open>Frameworks\<close> slice is nil (a
  \<^verbatim>\<open>Posture\<close> built by a struct literal rather than by \<^verbatim>\<open>NewPosture\<close>): it has no
  framework, and \<^verbatim>\<open>frameworks\<close> is written as \<^verbatim>\<open>null\<close>, not as \<^verbatim>\<open>[]\<close>.
\<close>

theorem nil_frameworks_counterexample:
  "len (Frameworks ((NewPosture sample_time)\<lparr>Frameworks := None\<rparr>)) = 0
   \<and> fst (ToJSON sample_time_marshaler ((NewPosture sample_time)\<lparr>Frameworks := None\<rparr>))
       = Inr (JObject
           [(''version'', JString ''v1''),
            (''timestamp'', JString ''2025-10-16T12:00:00Z''),
            (''compliance_posture'', JString ''''),
            (''frameworks'', JNull)])
   \<and> member (JObject
           [(''version'', JString ''v1''),
            (''timestamp'', JString ''2025-10-16T12:00:00Z''),
            (''compliance_posture'', JString ''''),
            (''frameworks'', JNull)]) ''frameworks'' = Some JNull
   \<and> member (JObject
           [(''version'', JString ''v1''),
            (''timestamp'', JString ''2025-10-16T12:00:00Z''),
            (''compliance_posture'', JString ''''),
            (''frameworks'', JNull)]) ''frameworks'' \<noteq> Some (JArray [])
   \<and> \<not> frameworks_always_array ((NewPosture sample_time)\<lparr>Frameworks := None\<rparr>)
         (JObject
           [(''version'', JString ''v1''),
            (''timestamp'', JString ''2025-10-16T12:00:00Z''),
            (''compliance_posture'', JString ''''),
            (''frameworks'', JNull)])"
  by (simp add: ToJSON_def marshal_Posture_def NewPosture_def sample_time_marshaler_def
      marshal_slice_def len_def elems_def field_def omitempty_pointer_def
      omitempty_slice_def omitempty_map_def member_def Version_const_def
      frameworks_always_array_def)

lemma Control_presence_marshal: "Control_presence c (marshal_Control c)"
  unfolding Control_presence_def
  using member_Control(1,2) [of c] present_iff_Control [of c] by blast

lemma Controls_presence_marshal: "list_all2 Control_presence cs (map marshal_Control cs)"
  by (induction cs) (simp_all add: Control_presence_marshal)

lemma Framework_presence_marshal:
  assumes "marshal_Framework f = Inr j"
  shows "Framework_presence f j"
proof -
  obtain sc where sc: "marshal_float64 (Score f) = Inr sc"
    using assms by (auto simp: marshal_Framework_def split: sum.splits)
  have c: "case member j ''controls'' of
            None \<Rightarrow> True
          | Some (JArray cs) \<Rightarrow> list_all2 Control_presence (elems (Controls f)) cs
          | Some _ \<Rightarrow> False"
    by (simp add: member_Framework(9) [OF assms] Controls_presence_marshal)
  have s: "member j ''score'' \<noteq> None"
    using member_Framework(3) [OF assms sc] by simp
  show ?thesis
    unfolding Framework_presence_def
    using c s present_iff_Framework [OF assms] member_Framework(1,2) [OF assms]
    by blast
qed

lemma Organization_presence_marshal: "Organization_presence org (marshal_Organization org)"
  unfolding Organization_presence_def
  using member_Organization(1) [of org] present_iff_Organization [of org] by blast

lemma optional_presence_marshal:
  assumes "marshal_Posture tm p = Inr j"
  shows "optional_presence p j"
proof -
  have t: "member j ''timestamp'' \<noteq> None"
    using member_Posture(2) [OF assms] by auto
  have o: "case (member j ''organization'', Organization p) of
            (None, _) \<Rightarrow> True
          | (Some oj, Some org) \<Rightarrow> Organization_presence org oj
          | (Some oj, None) \<Rightarrow> False"
    by (cases "Organization p")
      (simp_all add: member_Posture(4) [OF assms] Organization_presence_marshal)
  show ?thesis
    unfolding optional_presence_def
    using t o present_iff_Posture [OF assms] member_Posture(1,3) [OF assms]
    by blast
qed

lemma frameworks_null_or_array_marshal:
  assumes "marshal_Posture tm p = Inr j"
  shows "frameworks_null_or_array p j"
proof (cases "Frameworks p")
  case None
  then show ?thesis
    using frameworks_member [OF assms] by (simp add: frameworks_null_or_array_def)
next
  case (Some fs)
  then obtain js where m: "member j ''frameworks'' = Some (JArray js)"
    and l: "list_all2 (\<lambda>f fj. marshal_Framework f = Inr fj) fs js"
    using frameworks_member [OF assms] by auto
  have "list_all2 Framework_presence fs js"
    using l by (rule list_all2_mono) (rule Framework_presence_marshal)
  then show ?thesis
    using Some m by (simp add: frameworks_null_or_array_def elems_def)
qed

lemma member_None_iff: "member j k = None \<longleftrightarrow> k \<notin> set (keys j)"
  by (cases j) (simp_all add: member_def keys_def map_of_eq_None_iff)

text \<open>
  Claim C5, amended. For every posture that serializes, every optional field that is unset
  or empty (\<^verbatim>\<open>organization\<close>, \<^verbatim>\<open>evidence_refs\<close>, \<^verbatim>\<open>extensions\<close>, and the optional fields of
  the organization, of every framework and of every control) is left out of the output,
  and one that is set is written with a value that is not \<^verbatim>\<open>null\<close>, not the empty string
  and not the empty array; in particular a posture with no organization has no
  \<^verbatim>\<open>organization\<close> key. \<^verbatim>\<open>frameworks\<close> is always written: as an array with one element per
  framework when the slice is not nil, so as \<^verbatim>\<open>[]\<close> for the empty slice that \<^verbatim>\<open>NewPosture\<close>
  sets, and as \<^verbatim>\<open>null\<close> when the slice is nil.
\<close>

theorem serialization_field_presence:
  assumes "fst (ToJSON tm p) = Inr j"
  shows "optional_presence p j
       \<and> frameworks_null_or_array p j
       \<and> (Frameworks p \<noteq> None \<longrightarrow> frameworks_always_array p j)
       \<and> (Frameworks p = Some [] \<longrightarrow> member j ''frameworks'' = Some (JArray []))
       \<and> (Frameworks p = None \<longrightarrow> member j ''frameworks'' = Some JNull)
       \<and> (Organization p = None \<longrightarrow>
            member j ''organization'' = None \<and> ''organization'' \<notin> set (keys j))"
proof -
  have m: "marshal_Posture tm p = Inr j"
    using assms by (simp add: ToJSON_def)
  have a: "optional_presence p j"
    using m by (rule optional_presence_marshal)
  have b: "frameworks_null_or_array p j"
    using m by (rule frameworks_null_or_array_marshal)
  have c: "Frameworks p \<noteq> None \<longrightarrow> frameworks_always_array p j"
    using b
    by (auto simp: frameworks_null_or_array_def frameworks_always_array_def
        split: option.splits json.splits)
  have d: "Frameworks p = Some [] \<longrightarrow> member j ''frameworks'' = Some (JArray [])"
    using frameworks_member [OF m] by auto
  have e: "Frameworks p = None \<longrightarrow> member j ''frameworks'' = Some JNull"
    using frameworks_member [OF m] by auto
  have f: "Organization p = None \<longrightarrow>
            member j ''organization'' = None \<and> ''organization'' \<notin> set (keys j)"
    using member_Posture(4) [OF m] member_None_iff [of j "''organization''"] by auto
  show ?thesis
    using a b c d e f by blast
qed

theorem serialization_field_presence_witness:
  "fst (ToJSON sample_time_marshaler sample_posture) = Inr sample_json
   \<and> optional_presence sample_posture sample_json
   \<and> frameworks_always_array sample_posture sample_json
   \<and> keys sample_json
       = [''version'', ''timestamp'', ''compliance_posture'', ''organization'', ''frameworks'']
   \<and> fst (ToJSON sample_time_marshaler (NewPosture sample_time))
       = Inr (JObject
           [(''version'', JString ''v1''),
            (''timestamp'', JString ''2025-10-16T12:00:00Z''),
            (''compliance_posture'', JString ''''),
            (''frameworks'', JArray [])])
   \<and> member (JObject
           [(''version'', JString ''v1''),
            (''timestamp'', JString ''2025-10-16T12:00:00Z''),
            (''compliance_posture'', JString ''''),
            (''frameworks'', JArray [])]) ''organization'' = None"
proof -
  have h: "fst (ToJSON sample_time_marshaler sample_posture) = Inr sample_json"
    by (simp add: ToJSON_def marshal_Posture_def sample_posture_def sample_json_def
        SetPosture_def SetOrganization_def AddFramework_def AddControl_def NewPosture_def
        NewControl_def NewFramework_def soc2_def iso27001_def acme_def append_slice_def
        sample_time_marshaler_def marshal_slice_def marshal_Framework_def
        marshal_float64_def marshal_Control_slice_def marshal_Control_def
        marshal_Organization_def len_def elems_def field_def omitempty_pointer_def
        omitempty_slice_def omitempty_map_def omitempty_string_def Version_const_def
        PosturePartiallyCompliant_def StatusCompliant_def StatusPartial_def
        ControlCompliant_def)
  have n: "Frameworks sample_posture \<noteq> None"
    by (simp add: sample_posture_def SetPosture_def SetOrganization_def AddFramework_def
        append_slice_def)
  have k: "keys sample_json
       = [''version'', ''timestamp'', ''compliance_posture'', ''organization'', ''frameworks'']"
    by (simp add: keys_def sample_json_def)
  have h0: "fst (ToJSON sample_time_marshaler (NewPosture sample_time))
       = Inr (JObject
           [(''version'', JString ''v1''),
            (''timestamp'', JString ''2025-10-16T12:00:00Z''),
            (''compliance_posture'', JString ''''),
            (''frameworks'', JArray [])])"
    by (simp add: ToJSON_def marshal_Posture_def NewPosture_def sample_time_marshaler_def
        marshal_slice_def len_def elems_def field_def omitempty_pointer_def
        omitempty_slice_def omitempty_map_def Version_const_def)
  have o0: "Organization (NewPosture sample_time) = None"
    by (simp add: NewPosture_def)
  show ?thesis
    using serialization_field_presence [OF h] serialization_field_presence [OF h0] h h0 n k o0
    by simp
qed

lemma filter_fst_single:
  "distinct (map fst xs) \<Longrightarrow> k \<in> set xs \<Longrightarrow> filter (\<lambda>x. fst k = fst x) xs = [k]"
proof (induction xs)
  case Nil
  then show ?case by simp
next
  case (Cons x xs)
  show ?case
  proof (cases "k = x")
    case True
    have "filter (\<lambda>y. fst x = fst y) xs = []"
      using Cons.prems(1) by (auto simp: filter_empty_conv image_iff)
    then show ?thesis using True by simp
  next
    case False
    then have k: "k \<in> set xs" using Cons.prems(2) by simp
    then have "fst k \<noteq> fst x" using Cons.prems(1) by (auto simp: image_iff)
    then show ?thesis using Cons.IH k Cons.prems(1) by simp
  qed
qed

lemma sort_key_fst_unique:
  assumes "distinct (map fst m)" and "distinct (map fst m')" and "set m' = set m"
  shows "sort_key fst m' = sort_key fst m"
proof -
  have dm: "distinct m" "distinct m'"
    using assms(1,2) by (simp_all add: distinct_map)
  have ms: "mset m' = mset m"
    using dm assms(3) by (simp add: set_eq_iff_mset_eq_distinct)
  have "sort_key fst m = sort_key fst m'"
  proof (rule properties_for_sort_key)
    show "mset (sort_key fst m') = mset m"
      using ms by simp
    show "sorted (map fst (sort_key fst m'))"
      by simp
    fix k assume "k \<in> set (sort_key fst m')"
    then have k: "k \<in> set m'" by simp
    have "filter (\<lambda>x. fst k = fst x) (sort_key fst m') = sort_key fst (filter (\<lambda>x. fst k = fst x) m')"
      by (simp add: filter_sort)
    also have "\<dots> = [k]"
      using filter_fst_single [OF assms(2) k] by simp
    also have "\<dots> = filter (\<lambda>x. fst k = fst x) m"
      using filter_fst_single [OF assms(1)] k assms(3) by simp
    finally show "filter (\<lambda>x. fst k = fst x) (sort_key fst m') = filter (\<lambda>x. fst k = fst x) m" .
  qed
  then show ?thesis by simp
qed

lemma marshal_Posture_map_order:
  assumes "distinct (map fst m)" and "distinct (map fst m')" and "set m' = set m"
  shows "marshal_Posture tm (p\<lparr>Extensions := Some m'\<rparr>)
       = marshal_Posture tm (p\<lparr>Extensions := Some m\<rparr>)"
proof -
  have s: "sort_key fst m' = sort_key fst m"
    using assms by (rule sort_key_fst_unique)
  have "length (sort_key fst m') = length (sort_key fst m)"
    using s by simp
  then have l: "length m' = length m"
    by simp
  have e1: "len (Some m') = len (Some m)"
    by (simp add: len_def elems_def l)
  have e2: "marshal_map (Some m') = marshal_map (Some m)"
    by (simp add: marshal_map_def s)
  have e3: "omitempty_map k (Some m') x = omitempty_map k (Some m) x" for k x
    by (simp add: omitempty_map_def e1)
  show ?thesis
    by (simp add: marshal_Posture_def e1 e2 e3 cong: sum.case_cong)
qed

lemma timestamp_member:
  "case fst (ToJSON tm p) of
     Inl e \<Rightarrow> True
   | Inr j \<Rightarrow>
       (case tm (Timestamp p) of
          Inl e \<Rightarrow> False
        | Inr ts \<Rightarrow> member j ''timestamp'' = Some (JString ts))"
proof (cases "marshal_Posture tm p")
  case (Inl e)
  then show ?thesis by (simp add: ToJSON_def)
next
  case (Inr j)
  then show ?thesis
    using member_Posture(2) [OF Inr] by (auto simp: ToJSON_def)
qed

text \<open>
  Claim C6. Serialization is repeatable. \<^verbatim>\<open>ToJSON\<close> leaves the posture as it found it, so
  a second call on the same posture returns the same result as the first; equal trees are
  written as equal bytes. The timestamp in the output is the rendering of the stored
  \<^verbatim>\<open>Timestamp\<close> field, which \<^verbatim>\<open>NewPosture\<close> sets from the clock and no builder method
  changes: serialization reads no clock. The random iteration order of the Go map
  \<^verbatim>\<open>Extensions\<close> does not reach the output either: two listings of the same entries
  serialize alike.
\<close>

theorem ToJSON_repeatable:
  "snd (ToJSON tm p) = p
   \<and> fst (ToJSON tm (snd (ToJSON tm p))) = fst (ToJSON tm p)
   \<and> Timestamp (snd (ToJSON tm p)) = Timestamp p
   \<and> (case fst (ToJSON tm p) of
         Inl e \<Rightarrow> True
       | Inr j \<Rightarrow>
           (case tm (Timestamp p) of
              Inl e \<Rightarrow> False
            | Inr ts \<Rightarrow> member j ''timestamp'' = Some (JString ts)))
   \<and> Timestamp (NewPosture now) = UTC now
   \<and> Timestamp (AddFramework p f) = Timestamp p
   \<and> Timestamp (SetOrganization p org) = Timestamp p
   \<and> Timestamp (SetPosture p v) = Timestamp p
   \<and> Timestamp (AddExtension p k x) = Timestamp p
   \<and> (distinct (map fst m) \<and> distinct (map fst m') \<and> set m' = set m \<longrightarrow>
        fst (ToJSON tm (p\<lparr>Extensions := Some m'\<rparr>))
        = fst (ToJSON tm (p\<lparr>Extensions := Some m\<rparr>)))"
proof -
  have a: "snd (ToJSON tm p) = p"
    by (simp add: ToJSON_def)
  have b: "Timestamp (NewPosture now) = UTC now"
    by (simp add: NewPosture_def)
  have c: "Timestamp (AddFramework p f) = Timestamp p"
    "Timestamp (SetOrganization p org) = Timestamp p"
    "Timestamp (SetPosture p v) = Timestamp p"
    "Timestamp (AddExtension p k x) = Timestamp p"
    by (simp_all add: AddFramework_def SetOrganization_def SetPosture_def AddExtension_def)
  have d: "distinct (map fst m) \<and> distinct (map fst m') \<and> set m' = set m \<longrightarrow>
        fst (ToJSON tm (p\<lparr>Extensions := Some m'\<rparr>))
        = fst (ToJSON tm (p\<lparr>Extensions := Some m\<rparr>))"
    by (simp add: ToJSON_def marshal_Posture_map_order)
  show ?thesis
    using a b c d timestamp_member [of tm p] by simp
qed

theorem ToJSON_repeatable_witness:
  "fst (ToJSON sample_time_marshaler
         (AddExtension (AddExtension (NewPosture sample_time) ''region'' (IValue (JString ''eu'')))
            ''acme'' (IValue (JNumber 5000))))
     = Inr (JObject
         [(''version'', JString ''v1''),
          (''timestamp'', JString ''2025-10-16T12:00:00Z''),
          (''compliance_posture'', JString ''''),
          (''frameworks'', JArray []),
          (''extensions'',
             JObject [(''acme'', JNumber 5000), (''region'', JString ''eu'')])])
   \<and> fst (ToJSON sample_time_marshaler
         (NewPosture sample_time
            \<lparr>Extensions := Some [(''acme'', IValue (JNumber 5000)),
                                 (''region'', IValue (JString ''eu''))]\<rparr>))
     = fst (ToJSON sample_time_marshaler
         (NewPosture sample_time
            \<lparr>Extensions := Some [(''region'', IValue (JString ''eu'')),
                                 (''acme'', IValue (JNumber 5000))]\<rparr>))
   \<and> fst (ToJSON sample_time_marshaler
         (snd (ToJSON sample_time_marshaler (NewPosture sample_time))))
     = fst (ToJSON sample_time_marshaler (NewPosture sample_time))"
proof -
  have v: "fst (ToJSON sample_time_marshaler
         (AddExtension (AddExtension (NewPosture sample_time) ''region'' (IValue (JString ''eu'')))
            ''acme'' (IValue (JNumber 5000))))
     = Inr (JObject
         [(''version'', JString ''v1''),
          (''timestamp'', JString ''2025-10-16T12:00:00Z''),
          (''compliance_posture'', JString ''''),
          (''frameworks'', JArray []),
          (''extensions'',
             JObject [(''acme'', JNumber 5000), (''region'', JString ''eu'')])])"
    by (simp add: ToJSON_def marshal_Posture_def NewPosture_def AddExtension_def
        sample_time_marshaler_def marshal_slice_def marshal_map_def marshal_iface_def
        len_def elems_def field_def omitempty_pointer_def omitempty_slice_def
        omitempty_map_def Version_const_def)
  have h: "distinct (map fst [(''region'', IValue (JString ''eu'')),
                              (''acme'', IValue (JNumber 5000))])
      \<and> distinct (map fst [(''acme'', IValue (JNumber 5000)),
                             (''region'', IValue (JString ''eu''))])
      \<and> set [(''acme'', IValue (JNumber 5000)), (''region'', IValue (JString ''eu''))]
        = set [(''region'', IValue (JString ''eu'')), (''acme'', IValue (JNumber 5000))]"
    by auto
  show ?thesis
    using v h
      ToJSON_repeatable [of sample_time_marshaler "NewPosture sample_time" sample_time
        soc2 "\<lparr>Organization.Name = ''Acme'', Domain = '''', Contact = ''''\<rparr>" "''unknown''"
        "''k''" IUnsupported
        "[(''region'', IValue (JString ''eu'')), (''acme'', IValue (JNumber 5000))]"
        "[(''acme'', IValue (JNumber 5000)), (''region'', IValue (JString ''eu''))]"]
    by simp
qed

section \<open>Round trip through the serialized form\<close>





end
